theory Spec2Isabelle
  imports Main "HOL-Library.Sublist"
begin

section \<open>Python strings\<close>

text \<open>
  A Python \<open>str\<close> is modelled as a \<open>string\<close>: one \<open>char\<close> per code point, for
  texts over the ASCII range. The case mappings and the whitespace class below are the
  ones of \<open>str.upper\<close>, \<open>str.lower\<close> and \<open>str.strip\<close> on that range; a code
  above 127 is left as it is by the case mappings and is no whitespace.
\<close>

definition upper_char :: "char \<Rightarrow> char" where
  "upper_char c =
     (let n = (of_char c :: nat) in if 97 \<le> n \<and> n \<le> 122 then char_of (n - 32) else c)"

definition lower_char :: "char \<Rightarrow> char" where
  "lower_char c =
     (let n = (of_char c :: nat) in if 65 \<le> n \<and> n \<le> 90 then char_of (n + 32) else c)"

definition upper :: "string \<Rightarrow> string" where
  "upper s = map upper_char s"

definition lower :: "string \<Rightarrow> string" where
  "lower s = map lower_char s"

text \<open>
  \<open>str.isspace\<close> on ASCII: tab, line feed, vertical tab, form feed, carriage return,
  the four separators 0x1C..0x1F, and the space.
\<close>

definition isspace :: "char \<Rightarrow> bool" where
  "isspace c = (let n = (of_char c :: nat) in (9 \<le> n \<and> n \<le> 13) \<or> (28 \<le> n \<and> n \<le> 32))"

definition strip :: "string \<Rightarrow> string" where
  "strip s = rev (dropWhile isspace (rev (dropWhile isspace s)))"

text \<open>
  \<open>s.split(sep)\<close> for a non-empty separator: the text is scanned from the left, every
  occurrence of \<open>sep\<close> closes the current fragment and the scan goes on after it, so
  occurrences do not overlap and \<open>k\<close> occurrences give \<open>k + 1\<close> fragments. \<open>cur\<close> is the
  fragment being read. Python raises \<open>ValueError\<close> on an empty separator; both
  separators of the program are non-empty literals, and \<open>split_from\<close> then never
  cuts.
\<close>

fun split_from :: "string \<Rightarrow> string \<Rightarrow> string \<Rightarrow> string list" where
  "split_from sep cur [] = [cur]"
| "split_from sep cur (c # cs) =
     (if sep \<noteq> [] \<and> prefix sep (c # cs)
      then cur # split_from sep [] (drop (length sep) (c # cs))
      else split_from sep (cur @ [c]) cs)"

definition split :: "string \<Rightarrow> string \<Rightarrow> string list" where
  "split s sep = split_from sep [] s"

text \<open>\<open>x in s\<close> on strings: \<open>x\<close> occurs in \<open>s\<close> as a contiguous piece.\<close>

definition contains :: "string \<Rightarrow> string \<Rightarrow> bool" where
  "contains s x = sublist x s"

section \<open>The MIME type of the upload\<close>

text \<open>
  \<open>file_extension = uploaded_file.name.split('.')[-1].lower()\<close>. The index \<open>-1\<close>
  reads the last fragment, and raises \<open>IndexError\<close> on an empty list.
\<close>

datatype exn = IndexError | AttributeError | BackendError string

definition last_item :: "'a list \<Rightarrow> exn + 'a" where
  "last_item xs = (if xs = [] then Inl IndexError else Inr (last xs))"

definition file_extension :: "string \<Rightarrow> exn + string" where
  "file_extension fname =
     (case last_item (split fname ''.'') of Inl e \<Rightarrow> Inl e | Inr ext \<Rightarrow> Inr (lower ext))"

definition mime_type_map :: "(string \<times> string) list" where
  "mime_type_map =
     [(''mp3'', ''audio/mp3''),
      (''mpeg'', ''audio/mpeg''),
      (''mpga'', ''audio/mpeg''),
      (''mp4'', ''audio/mp4''),
      (''m4a'', ''audio/mp4''),
      (''wav'', ''audio/wav''),
      (''webm'', ''audio/webm''),
      (''aac'', ''audio/aac'')]"

text \<open>\<open>mime_type_map.get(file_extension, 'audio/mpeg')\<close>\<close>

definition mime_type :: "string \<Rightarrow> exn + string" where
  "mime_type fname =
     (case file_extension fname of
        Inl e \<Rightarrow> Inl e
      | Inr ext \<Rightarrow>
          Inr (case map_of mime_type_map ext of Some m \<Rightarrow> m | None \<Rightarrow> ''audio/mpeg''))"

text \<open>
  The table of the specification, with its default, as a function of the extension: what
  \<open>mime_type\<close> is compared with.
\<close>

definition documented_type :: "string \<Rightarrow> string" where
  "documented_type ext =
     (if ext = ''mp3'' then ''audio/mp3''
      else if ext = ''mpeg'' then ''audio/mpeg''
      else if ext = ''mpga'' then ''audio/mpeg''
      else if ext = ''mp4'' then ''audio/mp4''
      else if ext = ''m4a'' then ''audio/mp4''
      else if ext = ''wav'' then ''audio/wav''
      else if ext = ''webm'' then ''audio/webm''
      else if ext = ''aac'' then ''audio/aac''
      else ''audio/mpeg'')"

section \<open>The prompts\<close>

definition nl :: string where
  "nl = [CHR 0x0A]"

text \<open>
  The triple-quoted literal of \<open>transcription_prompt\<close>, with its line breaks and the
  indentation of its continuation lines, then the clause added under
  \<open>if include_timestamps\<close>.
\<close>

definition transcription_base :: string where
  "transcription_base =
      ''Please transcribe this audio file accurately. '' @ nl @
      ''                Provide the complete transcript with proper punctuation, paragraph breaks, '' @ nl @
      ''                and speaker identification if multiple speakers are present.''"

definition transcription_prompt :: "bool \<Rightarrow> string" where
  "transcription_prompt include_timestamps =
     (if include_timestamps
      then transcription_base @ '' Include timestamps where possible.''
      else transcription_base)"

text \<open>\<open>str\<close> of a Python \<open>int\<close>: decimal digits, with a minus sign below zero.\<close>

fun str_nat :: "nat \<Rightarrow> string" where
  "str_nat n =
     (if n < 10 then [char_of (48 + n)] else str_nat (n div 10) @ [char_of (48 + n mod 10)])"

declare str_nat.simps [simp del]

definition str :: "int \<Rightarrow> string" where
  "str i = (if i < 0 then CHR ''-'' # str_nat (nat (- i)) else str_nat (nat i))"

text \<open>
  The f-string of \<open>study_prompt\<close> is three literal pieces around its fields
  \<open>{num_questions} {quiz_difficulty.lower()}\<close> and \<open>{transcript_text}\<close>.
\<close>

definition study_prompt_head :: string where
  "study_prompt_head =
      ''You are an expert educational assistant. Based on the following lecture transcript, '' @ nl @
      ''                    please generate comprehensive study materials:'' @ nl @
      nl @
      ''                    1. **SUMMARY**: Write a concise 3-4 sentence summary of the main topic and key concepts.'' @ nl @
      nl @
      ''                    2. **KEY POINTS**: Create a bullet-point list of the most important concepts, facts, and ideas. '' @ nl @
      ''                       Organize them logically and use clear, educational language.'' @ nl @
      nl @
      ''                    3. **QUIZ**: Create ''"

definition study_prompt_quiz :: string where
  "study_prompt_quiz =
      ''-level multiple-choice questions to test understanding. '' @ nl @
      ''                       For each question:'' @ nl @
      ''                       - Provide 4 answer options (A, B, C, D)'' @ nl @
      ''                       - Clearly indicate the correct answer'' @ nl @
      ''                       - Include a brief explanation for why the answer is correct'' @ nl @
      nl @
      ''                    Transcript:'' @ nl @
      ''                    ---'' @ nl @
      ''                    ''"

definition study_prompt_tail :: string where
  "study_prompt_tail =
      nl @
      nl @
      ''                    Please format your response with clear headers and organize the content for easy reading.''"

definition study_prompt :: "string \<Rightarrow> int \<Rightarrow> string \<Rightarrow> string" where
  "study_prompt transcript_text num_questions quiz_difficulty =
     study_prompt_head @ str num_questions @ '' '' @ lower quiz_difficulty @
     study_prompt_quiz @ transcript_text @ study_prompt_tail"

section \<open>The sections of the generated text\<close>

text \<open>\<open>xs[i]\<close> for an index \<open>i \<ge> 0\<close>: \<open>IndexError\<close> past the end.\<close>

definition item :: "'a list \<Rightarrow> nat \<Rightarrow> exn + 'a" where
  "item xs i = (if i < length xs then Inr (xs ! i) else Inl IndexError)"

text \<open>
  The \<open>for i, section in enumerate(sections)\<close> loop of a tab, from index \<open>i\<close> on:
  \<open>Inr (Some text)\<close> when the loop leaves through \<open>break\<close> with \<open>text\<close> written,
  \<open>Inr None\<close> when it runs to its end, so that the \<open>else\<close> of the loop is taken. A
  fragment that holds the label and is the last one neither writes nor breaks.
\<close>

function find_section :: "string \<Rightarrow> string list \<Rightarrow> nat \<Rightarrow> exn + string option" where
  "find_section label sections i =
     (if i < length sections then
        (if contains (upper (sections ! i)) label then
           (if i + 1 < length sections then
              (case item sections (i + 1) of
                 Inl e \<Rightarrow> Inl e
               | Inr s \<Rightarrow> Inr (Some (strip s)))
            else find_section label sections (i + 1))
         else find_section label sections (i + 1))
      else Inr None)"
  by pat_completeness auto
termination
  by (relation "measure (\<lambda>(label, sections, i). length sections - i)") auto

declare find_section.simps [simp del]

text \<open>
  \<open>generated_content[:500] + "..." if len(generated_content) > 500 else generated_content\<close>:
  the conditional expression binds weaker than \<open>+\<close>.
\<close>

definition summary_fallback :: "string \<Rightarrow> string" where
  "summary_fallback generated_content =
     (if length generated_content > 500 then take 500 generated_content @ ''...''
      else generated_content)"

definition key_points_fallback :: string where
  "key_points_fallback = ''Key points extracted from the lecture content.''"

definition quiz_fallback :: string where
  "quiz_fallback = ''Quiz questions based on the lecture content.''"

text \<open>What \<open>st.write\<close> shows in the tab of a label, given the text of the \<open>else\<close>.\<close>

definition tab_text :: "string \<Rightarrow> string \<Rightarrow> string list \<Rightarrow> exn + string" where
  "tab_text label fallback sections =
     (case find_section label sections 0 of
        Inl e \<Rightarrow> Inl e
      | Inr (Some text) \<Rightarrow> Inr text
      | Inr None \<Rightarrow> Inr fallback)"

record sectioned_notes =
  summary_text :: string
  key_points :: string
  quiz_text :: string

text \<open>
  The three tabs in the order of the program: \<open>sections = generated_content.split("**")\<close>,
  then the summary, the key points and the quiz.
\<close>

definition extract_sections :: "string \<Rightarrow> exn + sectioned_notes" where
  "extract_sections generated_content =
     (let sections = split generated_content ''**'' in
      case tab_text ''SUMMARY'' (summary_fallback generated_content) sections of
        Inl e \<Rightarrow> Inl e
      | Inr s \<Rightarrow>
          (case tab_text ''KEY POINTS'' key_points_fallback sections of
             Inl e \<Rightarrow> Inl e
           | Inr k \<Rightarrow>
               (case tab_text ''QUIZ'' quiz_fallback sections of
                  Inl e \<Rightarrow> Inl e
                | Inr q \<Rightarrow> Inr \<lparr>summary_text = s, key_points = k, quiz_text = q\<rparr>)))"

text \<open>
  The words of the specification about the fragments: a fragment holds a label when its
  upper-cased form contains it; the header of a label is the first fragment that holds
  it; a label has no content when no fragment holds it or its header is the last
  fragment.
\<close>

definition holds_label :: "string \<Rightarrow> string \<Rightarrow> bool" where
  "holds_label label fragment = contains (upper fragment) label"

definition first_header :: "string \<Rightarrow> string list \<Rightarrow> nat \<Rightarrow> bool" where
  "first_header label fragments i =
     (i < length fragments \<and> holds_label label (fragments ! i) \<and>
      list_all (\<lambda>f. \<not> holds_label label f) (take i fragments))"

definition no_content :: "string \<Rightarrow> string list \<Rightarrow> bool" where
  "no_content label fragments =
     (list_all (\<lambda>f. \<not> holds_label label f) fragments \<or>
      (fragments \<noteq> [] \<and> first_header label fragments (length fragments - 1)))"

section \<open>The exports\<close>

definition complete_notes :: "string \<Rightarrow> string" where
  "complete_notes generated_content = ''LECTURE NOTES'' @ nl @ nl @ generated_content"

definition study_guide :: "string \<Rightarrow> string \<Rightarrow> string \<Rightarrow> string" where
  "study_guide fname transcript_text generated_content =
     nl @
     ''# Study Guide: '' @ fname @ nl @
     nl @
     ''## Transcript'' @ nl @
     transcript_text @ nl @
     nl @
     ''## Generated Study Materials'' @ nl @
     generated_content @ nl @
     nl @
     ''---'' @ nl @
     ''Generated by Lecture Voice-to-Notes Generator'' @ nl"

section \<open>The run of the program\<close>

text \<open>
  The program is a script: it reads the key, the upload and the settings from the page,
  calls the backend, and shows its results on the page. A run is modelled by the list of
  requests it sends to the backend and the list of what it shows, both in order. The
  headings, spinners and columns of the page are fixed decoration and are left out, and
  the calls that show something do not raise.
\<close>

record uploaded =
  name :: string
  content :: string

text \<open>
  \<open>contents\<close> of \<open>generate_content\<close>: the prompt with the audio part and its MIME type
  for the transcription, the prompt alone for the study materials. Both calls name the
  same model.
\<close>

datatype contents = Audio string string string | Text string

text \<open>
  The backend: \<open>genai.Client(api_key=...)\<close> returns or raises; \<open>generate_content\<close>
  raises, or returns a response whose \<open>text\<close> is a string or \<open>None\<close>.
\<close>

record backend =
  Client :: "string \<Rightarrow> exn + unit"
  generate_content :: "contents \<Rightarrow> exn + string option"

datatype tab = tab1 | tab2 | tab3 | tab4

text \<open>
  The texts of \<open>st.error\<close>: "No transcript generated. Please try again.", and the three
  that end in \<open>str(e)\<close> of the exception caught, "Error during transcription: ", "Error
  during note generation: " and "Error initializing Gemini client: ".
\<close>

datatype message =
    No_transcript
  | Transcription_error exn
  | Generation_error exn
  | Client_error exn

text \<open>\<open>st_download_button data file_name mime\<close>; the two warnings of the welcome page.\<close>

datatype event =
    st_text_area tab string
  | st_write tab string
  | st_download_button string string string
  | st_error message
  | st_warning_key
  | st_warning_file

record run =
  requests :: "contents list"
  events :: "event list"

definition emit :: "event list \<Rightarrow> run \<Rightarrow> run" where
  "emit es r = r\<lparr>events := events r @ es\<rparr>"

definition call :: "backend \<Rightarrow> contents \<Rightarrow> run \<Rightarrow> (exn + string option) \<times> run" where
  "call b c r = (generate_content b c, r\<lparr>requests := requests r @ [c]\<rparr>)"

text \<open>
  Step 1, the first inner \<open>try\<close>: the value is \<open>transcript_text\<close> after it, which the
  handler sets to the empty string. \<open>transcription_response.text.strip()\<close> raises
  \<open>AttributeError\<close> when the text is \<open>None\<close>.
\<close>

definition transcribe :: "backend \<Rightarrow> uploaded \<Rightarrow> bool \<Rightarrow> run \<Rightarrow> string \<times> run" where
  "transcribe b uploaded_file include_timestamps r =
     (let audio_bytes = content uploaded_file in
      case mime_type (name uploaded_file) of
        Inl e \<Rightarrow> ([], emit [st_error (Transcription_error e)] r)
      | Inr mt \<Rightarrow>
          (case call b (Audio (transcription_prompt include_timestamps) audio_bytes mt) r of
             (Inl e, r1) \<Rightarrow> ([], emit [st_error (Transcription_error e)] r1)
           | (Inr None, r1) \<Rightarrow> ([], emit [st_error (Transcription_error AttributeError)] r1)
           | (Inr (Some text), r1) \<Rightarrow>
               (let transcript_text = strip text in
                if transcript_text \<noteq> []
                then (transcript_text,
                      emit [st_text_area tab1 transcript_text,
                            st_download_button transcript_text
                              (''transcript_'' @ name uploaded_file @ ''.txt'') ''text/plain''] r1)
                else (transcript_text, emit [st_error No_transcript] r1))))"

text \<open>
  Step 2, the second inner \<open>try\<close>, entered under \<open>if transcript_text\<close>. What a tab has
  shown stays on the page when a later statement raises.
\<close>

definition generate_notes ::
  "backend \<Rightarrow> uploaded \<Rightarrow> string \<Rightarrow> int \<Rightarrow> string \<Rightarrow> run \<Rightarrow> run" where
  "generate_notes b uploaded_file quiz_difficulty num_questions transcript_text r =
     (case call b (Text (study_prompt transcript_text num_questions quiz_difficulty)) r of
        (Inl e, r1) \<Rightarrow> emit [st_error (Generation_error e)] r1
      | (Inr None, r1) \<Rightarrow> emit [st_error (Generation_error AttributeError)] r1
      | (Inr (Some generated_content), r1) \<Rightarrow>
          (let sections = split generated_content ''**'' in
           case tab_text ''SUMMARY'' (summary_fallback generated_content) sections of
             Inl e \<Rightarrow> emit [st_error (Generation_error e)] r1
           | Inr s \<Rightarrow>
               (let r2 = emit [st_write tab2 s] r1 in
                case tab_text ''KEY POINTS'' key_points_fallback sections of
                  Inl e \<Rightarrow> emit [st_error (Generation_error e)] r2
                | Inr k \<Rightarrow>
                    (let r3 = emit [st_write tab3 k] r2 in
                     case tab_text ''QUIZ'' quiz_fallback sections of
                       Inl e \<Rightarrow> emit [st_error (Generation_error e)] r3
                     | Inr q \<Rightarrow>
                         emit [st_write tab4 q,
                               st_download_button (complete_notes generated_content)
                                 (''study_notes_'' @ name uploaded_file @ ''.txt'') ''text/plain'',
                               st_download_button
                                 (study_guide (name uploaded_file) transcript_text generated_content)
                                 (''complete_study_guide_'' @ name uploaded_file @ ''.md'')
                                 ''text/markdown''] r3))))"

text \<open>The \<open>else\<close> of the main condition: a warning for each missing input.\<close>

definition welcome_page :: "string \<Rightarrow> uploaded option \<Rightarrow> run \<Rightarrow> run" where
  "welcome_page gemini_api_key uploaded_file r =
     emit ((if gemini_api_key = [] then [st_warning_key] else []) @
           (if uploaded_file = None then [st_warning_file] else [])) r"

text \<open>
  \<open>if gemini_api_key and uploaded_file is not None\<close>, then the outer \<open>try\<close> with the
  client, step 1 and step 2.
\<close>

definition app ::
  "string \<Rightarrow> uploaded option \<Rightarrow> bool \<Rightarrow> string \<Rightarrow> int \<Rightarrow> backend \<Rightarrow> run" where
  "app gemini_api_key uploaded_file include_timestamps quiz_difficulty num_questions b =
     (let r0 = \<lparr>requests = [], events = []\<rparr> in
      case uploaded_file of
        None \<Rightarrow> welcome_page gemini_api_key uploaded_file r0
      | Some f \<Rightarrow>
          if gemini_api_key \<noteq> [] then
            (case Client b gemini_api_key of
               Inl e \<Rightarrow> emit [st_error (Client_error e)] r0
             | Inr u \<Rightarrow>
                 (case transcribe b f include_timestamps r0 of
                    (transcript_text, r1) \<Rightarrow>
                      if transcript_text \<noteq> []
                      then generate_notes b f quiz_difficulty num_questions transcript_text r1
                      else r1))
          else welcome_page gemini_api_key uploaded_file r0)"

section \<open>Splitting\<close>

lemma split_from_nonempty: "split_from sep cur s \<noteq> []"
  by (induction sep cur s rule: split_from.induct) auto

section \<open>The MIME type: properties\<close>

lemma takeWhile_not_mem:
  "d \<notin> set xs \<Longrightarrow> takeWhile (\<lambda>c. c \<noteq> d) (xs @ ys) = xs @ takeWhile (\<lambda>c. c \<noteq> d) ys"
  by (rule takeWhile_append2) auto

lemma last_split_from_dot:
  "last (split_from ''.'' cur s) =
     (if CHR ''.'' \<in> set s then rev (takeWhile (\<lambda>c. c \<noteq> CHR ''.'') (rev s)) else cur @ s)"
proof (induction s arbitrary: cur)
  case Nil
  then show ?case by simp
next
  case (Cons c cs)
  show ?case
  proof (cases "c = CHR ''.''")
    case True
    have "last (split_from ''.'' cur (c # cs)) = last (split_from ''.'' [] cs)"
      using True by (simp add: split_from_nonempty)
    also have "\<dots> = (if CHR ''.'' \<in> set cs then rev (takeWhile (\<lambda>c. c \<noteq> CHR ''.'') (rev cs)) else cs)"
      using Cons.IH [of "[]"] by simp
    also have "\<dots> = rev (takeWhile (\<lambda>c. c \<noteq> CHR ''.'') (rev (c # cs)))"
      using True takeWhile_not_mem [of "CHR ''.''" "rev cs" "''.''"] by auto
    finally show ?thesis using True by simp
  next
    case False
    have "last (split_from ''.'' cur (c # cs)) = last (split_from ''.'' (cur @ [c]) cs)"
      using False by simp
    also have "\<dots> = (if CHR ''.'' \<in> set cs then rev (takeWhile (\<lambda>c. c \<noteq> CHR ''.'') (rev cs)) else (cur @ [c]) @ cs)"
      using Cons.IH [of "cur @ [c]"] by simp
    finally show ?thesis using False by (auto simp: takeWhile_append1)
  qed
qed

lemma file_extension_dot:
  "CHR ''.'' \<notin> set ext \<Longrightarrow> file_extension (pre @ ''.'' @ ext) = Inr (lower ext)"
  using last_split_from_dot [of "[]" "pre @ ''.'' @ ext"]
    takeWhile_not_mem [of "CHR ''.''" "rev ext" "CHR ''.'' # rev pre"]
  by (simp add: file_extension_def last_item_def split_def split_from_nonempty)

lemma file_extension_dotless:
  "CHR ''.'' \<notin> set fname \<Longrightarrow> file_extension fname = Inr (lower fname)"
  using last_split_from_dot [of "[]" fname]
  by (simp add: file_extension_def last_item_def split_def split_from_nonempty)

lemma mime_type_map_get:
  "(case map_of mime_type_map ext of Some m \<Rightarrow> m | None \<Rightarrow> ''audio/mpeg'') = documented_type ext"
  by (simp add: mime_type_map_def documented_type_def)

lemma distinct_mime_type_map: "distinct (map fst mime_type_map)"
  by (simp add: mime_type_map_def)

text \<open>
  C5, as stated, fails: the file name \<open>mp3\<close> has no \<open>.\<close> and so no extension, and its
  type is \<open>audio/mp3\<close>, not the default.
\<close>

theorem mime_type_missing_extension_counterexample:
  "CHR ''.'' \<notin> set ''mp3'' \<and> mime_type ''mp3'' = Inr ''audio/mp3'' \<and>
   mime_type ''mp3'' \<noteq> Inr ''audio/mpeg''"
  by code_simp

text \<open>
  C5, amended: the type is the entry of the table for the lower-cased text after the last
  \<open>.\<close> of the file name, the whole file name when it has no \<open>.\<close>, and the default
  \<open>audio/mpeg\<close> when that text is no key of the table; the lookup never raises.
\<close>

theorem mime_type_last_segment:
  "(CHR ''.'' \<notin> set ext \<longrightarrow> mime_type (pre @ ''.'' @ ext) = Inr (documented_type (lower ext))) \<and>
   (CHR ''.'' \<notin> set fname \<longrightarrow> mime_type fname = Inr (documented_type (lower fname))) \<and>
   (\<exists>m. mime_type fname = Inr m)"
proof -
  have "\<exists>ext. file_extension fname = Inr ext"
    by (simp add: file_extension_def last_item_def split_def split_from_nonempty)
  then have "\<exists>m. mime_type fname = Inr m"
    by (auto simp: mime_type_def)
  then show ?thesis
    by (simp add: mime_type_def file_extension_dot [simplified] file_extension_dotless
        mime_type_map_get)
qed

theorem mime_type_last_segment_witness:
  "CHR ''.'' \<notin> set ''WAV'' \<and> mime_type ''lecture.WAV'' = Inr ''audio/wav'' \<and>
   CHR ''.'' \<notin> set ''notes'' \<and> mime_type ''notes'' = Inr ''audio/mpeg''"
proof -
  have "documented_type (lower ''WAV'') = ''audio/wav''"
    and "documented_type (lower ''notes'') = ''audio/mpeg''"
    by code_simp+
  then show ?thesis
    using mime_type_last_segment [of "''WAV''" "''lecture''" "''notes''"] by simp
qed

text \<open>
  C10: a file name without \<open>.\<close> is its own extension, lower-cased: it gets the type of
  the key it equals (\<open>mp3\<close> gets \<open>audio/mp3\<close>), and \<open>audio/mpeg\<close> when it is no key.
\<close>

theorem dotless_filename_is_extension:
  assumes "CHR ''.'' \<notin> set fname"
  shows "file_extension fname = Inr (lower fname) \<and>
         (lower fname = ''mp3'' \<longrightarrow> mime_type fname = Inr ''audio/mp3'') \<and>
         (\<forall>m. (lower fname, m) \<in> set mime_type_map \<longrightarrow> mime_type fname = Inr m) \<and>
         (lower fname \<notin> fst ` set mime_type_map \<longrightarrow> mime_type fname = Inr ''audio/mpeg'')"
proof -
  have ext: "file_extension fname = Inr (lower fname)"
    using assms by (rule file_extension_dotless)
  have mp3: "mime_type fname = Inr ''audio/mp3''" if "lower fname = ''mp3''"
    using that by (simp add: mime_type_def ext mime_type_map_def)
  have key: "mime_type fname = Inr m" if "(lower fname, m) \<in> set mime_type_map" for m
  proof -
    have "map_of mime_type_map (lower fname) = Some m"
      using that distinct_mime_type_map by simp
    then show ?thesis by (simp add: mime_type_def ext)
  qed
  have other: "mime_type fname = Inr ''audio/mpeg''" if "lower fname \<notin> fst ` set mime_type_map"
  proof -
    have "map_of mime_type_map (lower fname) = None"
      using that by (simp add: map_of_eq_None_iff)
    then show ?thesis by (simp add: mime_type_def ext)
  qed
  show ?thesis using ext mp3 key other by blast
qed

theorem dotless_filename_is_extension_witness:
  "CHR ''.'' \<notin> set ''mp3'' \<and> mime_type ''mp3'' = Inr ''audio/mp3'' \<and>
   CHR ''.'' \<notin> set ''README'' \<and> mime_type ''README'' = Inr ''audio/mpeg''"
proof -
  have a: "CHR ''.'' \<notin> set ''mp3''" and b: "CHR ''.'' \<notin> set ''README''"
    by simp_all
  have c: "lower ''mp3'' = ''mp3''" and d: "lower ''README'' \<notin> fst ` set mime_type_map"
    by code_simp+
  show ?thesis
    using dotless_filename_is_extension [OF a] dotless_filename_is_extension [OF b] a b c d
    by blast
qed

section \<open>The sections: properties\<close>

lemma split_from_single: "\<not> sublist sep s \<Longrightarrow> split_from sep cur s = [cur @ s]"
proof (induction s arbitrary: cur)
  case Nil
  then show ?case by simp
next
  case (Cons c cs)
  have "\<not> prefix sep (c # cs)"
    using Cons.prems by auto
  moreover have "\<not> sublist sep cs"
    using Cons.prems by (auto simp: sublist_Cons_right)
  ultimately show ?case
    using Cons.IH [of "cur @ [c]"] by simp
qed

lemma split_single: "\<not> contains raw sep \<Longrightarrow> split raw sep = [raw]"
  by (simp add: split_def contains_def split_from_single)

lemma find_section_hit:
  "i + 1 < length ss \<Longrightarrow> contains (upper (ss ! i)) label \<Longrightarrow>
   find_section label ss i = Inr (Some (strip (ss ! (i + 1))))"
  by (subst find_section.simps) (simp add: item_def)

lemma find_section_skip:
  "k \<le> i \<Longrightarrow> i < length ss \<Longrightarrow>
   \<forall>j. k \<le> j \<and> j < i \<longrightarrow> \<not> contains (upper (ss ! j)) label \<Longrightarrow>
   find_section label ss k = find_section label ss i"
proof (induction "i - k" arbitrary: k)
  case 0
  then show ?case by simp
next
  case (Suc d)
  then have lt: "k < i" and no: "\<not> contains (upper (ss ! k)) label"
    by auto
  have "find_section label ss k = find_section label ss (k + 1)"
    using lt Suc.prems(2) no by (subst find_section.simps) simp
  also have "\<dots> = find_section label ss i"
    using Suc.hyps(1) [of "k + 1"] Suc.hyps(2) Suc.prems lt by auto
  finally show ?case .
qed

lemma find_section_miss:
  "\<forall>j. k \<le> j \<and> j + 1 < length ss \<longrightarrow> \<not> contains (upper (ss ! j)) label \<Longrightarrow>
   find_section label ss k = Inr None"
proof (induction label ss k rule: find_section.induct)
  case (1 label sections i)
  show ?case
  proof (cases "i < length sections")
    case False
    then show ?thesis by (subst find_section.simps) simp
  next
    case True
    show ?thesis
    proof (cases "contains (upper (sections ! i)) label")
      case False
      have "find_section label sections (i + 1) = Inr None"
        using "1.IH"(2) [OF True False] "1.prems" by auto
      then show ?thesis using True False by (subst find_section.simps) simp
    next
      case yes: True
      then have last: "\<not> i + 1 < length sections"
        using "1.prems" by auto
      have "find_section label sections (i + 1) = Inr None"
        using "1.IH"(1) [OF True yes last] "1.prems" by auto
      then show ?thesis using True yes last by (subst find_section.simps) simp
    qed
  qed
qed

lemma find_section_cases:
  "find_section label ss k = Inr None \<or>
   (\<exists>i. i + 1 < length ss \<and> find_section label ss k = Inr (Some (strip (ss ! (i + 1)))))"
proof (induction label ss k rule: find_section.induct)
  case (1 label sections i)
  show ?case
  proof (cases "i < length sections")
    case False
    then show ?thesis by (subst find_section.simps) simp
  next
    case True
    show ?thesis
    proof (cases "contains (upper (sections ! i)) label")
      case False
      have eq: "find_section label sections i = find_section label sections (i + 1)"
        using True False by (subst find_section.simps) simp
      show ?thesis unfolding eq using "1.IH"(2) [OF True False] .
    next
      case yes: True
      show ?thesis
      proof (cases "i + 1 < length sections")
        case True
        then show ?thesis using find_section_hit [OF True yes] by blast
      next
        case False
        have eq: "find_section label sections i = find_section label sections (i + 1)"
          using True yes False by (subst find_section.simps) simp
        show ?thesis unfolding eq using "1.IH"(1) [OF True yes False] .
      qed
    qed
  qed
qed

text \<open>The tab of a label, in the words of the specification.\<close>

lemma tab_text_header:
  assumes "first_header label ss i" and "i + 1 < length ss"
  shows "tab_text label fallback ss = Inr (strip (ss ! (i + 1)))"
proof -
  have i: "i < length ss" and yes: "contains (upper (ss ! i)) label"
    using assms(1) by (simp_all add: first_header_def holds_label_def)
  have before: "\<forall>f \<in> set (take i ss). \<not> contains (upper f) label"
    using assms(1) by (simp add: first_header_def holds_label_def list_all_iff)
  have "\<not> contains (upper (ss ! j)) label" if "j < i" for j
  proof -
    have "take i ss ! j \<in> set (take i ss)"
      using that i by (intro nth_mem) simp
    then show ?thesis using before that by simp
  qed
  then have "\<forall>j. 0 \<le> j \<and> j < i \<longrightarrow> \<not> contains (upper (ss ! j)) label"
    by simp
  then have "find_section label ss 0 = find_section label ss i"
    using i by (intro find_section_skip) auto
  then show ?thesis
    using find_section_hit [OF assms(2) yes] by (simp add: tab_text_def)
qed

lemma tab_text_fallback:
  assumes "no_content label ss"
  shows "tab_text label fallback ss = Inr fallback"
proof -
  have "\<not> contains (upper (ss ! j)) label" if "j + 1 < length ss" for j
  proof (cases "list_all (\<lambda>f. \<not> holds_label label f) ss")
    case True
    then show ?thesis
      using that by (auto simp: list_all_iff holds_label_def)
  next
    case False
    then have "list_all (\<lambda>f. \<not> holds_label label f) (take (length ss - 1) ss)"
      using assms by (simp add: no_content_def first_header_def)
    moreover have "take (length ss - 1) ss ! j \<in> set (take (length ss - 1) ss)"
      using that by (intro nth_mem) simp
    then have "ss ! j \<in> set (take (length ss - 1) ss)"
      using that by simp
    ultimately show ?thesis
      by (auto simp: list_all_iff holds_label_def)
  qed
  then have "find_section label ss 0 = Inr None"
    by (intro find_section_miss) auto
  then show ?thesis by (simp add: tab_text_def)
qed

lemma tab_text_cases:
  "tab_text label fallback ss = Inr fallback \<or>
   (\<exists>i. i + 1 < length ss \<and> tab_text label fallback ss = Inr (strip (ss ! (i + 1))))"
  using find_section_cases [of label ss 0] by (auto simp: tab_text_def)

lemma tab_text_total: "\<exists>t. tab_text label fallback ss = Inr t"
  using tab_text_cases [of label fallback ss] by auto

lemma extract_sections_tabs:
  "\<exists>s k q. tab_text ''SUMMARY'' (summary_fallback raw) (split raw ''**'') = Inr s \<and>
     tab_text ''KEY POINTS'' key_points_fallback (split raw ''**'') = Inr k \<and>
     tab_text ''QUIZ'' quiz_fallback (split raw ''**'') = Inr q \<and>
     extract_sections raw = Inr \<lparr>summary_text = s, key_points = k, quiz_text = q\<rparr>"
proof -
  obtain s where s: "tab_text ''SUMMARY'' (summary_fallback raw) (split raw ''**'') = Inr s"
    using tab_text_total by blast
  obtain k where k: "tab_text ''KEY POINTS'' key_points_fallback (split raw ''**'') = Inr k"
    using tab_text_total by blast
  obtain q where q: "tab_text ''QUIZ'' quiz_fallback (split raw ''**'') = Inr q"
    using tab_text_total by blast
  have "extract_sections raw = Inr \<lparr>summary_text = s, key_points = k, quiz_text = q\<rparr>"
    by (simp add: extract_sections_def Let_def s k q)
  then show ?thesis using s k q by blast
qed

text \<open>
  C1: on the well-formed text of the specification the three tabs show \<open>foo\<close>, \<open>bar\<close>
  and \<open>baz\<close>; and for every text, a label whose first header fragment has a fragment
  after it gets that next fragment, stripped.
\<close>

theorem extract_sections_after_first_header:
  "extract_sections
     (''...**SUMMARY**'' @ nl @ ''foo'' @ nl @ ''**KEY POINTS**'' @ nl @ ''bar'' @ nl @
      ''**QUIZ**'' @ nl @ ''baz'') =
     Inr \<lparr>summary_text = ''foo'', key_points = ''bar'', quiz_text = ''baz''\<rparr> \<and>
   (\<exists>notes. extract_sections raw = Inr notes \<and>
      (\<forall>i. first_header ''SUMMARY'' (split raw ''**'') i \<and> i + 1 < length (split raw ''**'') \<longrightarrow>
           summary_text notes = strip (split raw ''**'' ! (i + 1))) \<and>
      (\<forall>i. first_header ''KEY POINTS'' (split raw ''**'') i \<and> i + 1 < length (split raw ''**'') \<longrightarrow>
           key_points notes = strip (split raw ''**'' ! (i + 1))) \<and>
      (\<forall>i. first_header ''QUIZ'' (split raw ''**'') i \<and> i + 1 < length (split raw ''**'') \<longrightarrow>
           quiz_text notes = strip (split raw ''**'' ! (i + 1))))"
proof
  show "extract_sections
     (''...**SUMMARY**'' @ nl @ ''foo'' @ nl @ ''**KEY POINTS**'' @ nl @ ''bar'' @ nl @
      ''**QUIZ**'' @ nl @ ''baz'') =
     Inr \<lparr>summary_text = ''foo'', key_points = ''bar'', quiz_text = ''baz''\<rparr>"
    by code_simp
next
  obtain s k q where
    s: "tab_text ''SUMMARY'' (summary_fallback raw) (split raw ''**'') = Inr s" and
    k: "tab_text ''KEY POINTS'' key_points_fallback (split raw ''**'') = Inr k" and
    q: "tab_text ''QUIZ'' quiz_fallback (split raw ''**'') = Inr q" and
    n: "extract_sections raw = Inr \<lparr>summary_text = s, key_points = k, quiz_text = q\<rparr>"
    using extract_sections_tabs [of raw] by blast
  have "s = strip (split raw ''**'' ! (i + 1))"
    if "first_header ''SUMMARY'' (split raw ''**'') i" "i + 1 < length (split raw ''**'')" for i
    using tab_text_header [OF that, of "summary_fallback raw"] s by simp
  moreover have "k = strip (split raw ''**'' ! (i + 1))"
    if "first_header ''KEY POINTS'' (split raw ''**'') i" "i + 1 < length (split raw ''**'')" for i
    using tab_text_header [OF that, of key_points_fallback] k by simp
  moreover have "q = strip (split raw ''**'' ! (i + 1))"
    if "first_header ''QUIZ'' (split raw ''**'') i" "i + 1 < length (split raw ''**'')" for i
    using tab_text_header [OF that, of quiz_fallback] q by simp
  ultimately show "\<exists>notes. extract_sections raw = Inr notes \<and>
      (\<forall>i. first_header ''SUMMARY'' (split raw ''**'') i \<and> i + 1 < length (split raw ''**'') \<longrightarrow>
           summary_text notes = strip (split raw ''**'' ! (i + 1))) \<and>
      (\<forall>i. first_header ''KEY POINTS'' (split raw ''**'') i \<and> i + 1 < length (split raw ''**'') \<longrightarrow>
           key_points notes = strip (split raw ''**'' ! (i + 1))) \<and>
      (\<forall>i. first_header ''QUIZ'' (split raw ''**'') i \<and> i + 1 < length (split raw ''**'') \<longrightarrow>
           quiz_text notes = strip (split raw ''**'' ! (i + 1)))"
    using n by simp
qed

theorem extract_sections_after_first_header_witness:
  "first_header ''SUMMARY''
     (split (''**SUMMARY**'' @ nl @ ''A short talk.'' @ nl @ ''**KEY POINTS**'' @ nl @
             ''- point one'' @ nl @ ''**QUIZ**'' @ nl @ ''Q1...'') ''**'') 1 \<and>
   first_header ''KEY POINTS''
     (split (''**SUMMARY**'' @ nl @ ''A short talk.'' @ nl @ ''**KEY POINTS**'' @ nl @
             ''- point one'' @ nl @ ''**QUIZ**'' @ nl @ ''Q1...'') ''**'') 3 \<and>
   first_header ''QUIZ''
     (split (''**SUMMARY**'' @ nl @ ''A short talk.'' @ nl @ ''**KEY POINTS**'' @ nl @
             ''- point one'' @ nl @ ''**QUIZ**'' @ nl @ ''Q1...'') ''**'') 5 \<and>
   length (split (''**SUMMARY**'' @ nl @ ''A short talk.'' @ nl @ ''**KEY POINTS**'' @ nl @
             ''- point one'' @ nl @ ''**QUIZ**'' @ nl @ ''Q1...'') ''**'') = 7 \<and>
   (\<exists>notes. extract_sections
        (''**SUMMARY**'' @ nl @ ''A short talk.'' @ nl @ ''**KEY POINTS**'' @ nl @
         ''- point one'' @ nl @ ''**QUIZ**'' @ nl @ ''Q1...'') = Inr notes \<and>
      summary_text notes = ''A short talk.'' \<and> key_points notes = ''- point one'' \<and>
      quiz_text notes = ''Q1...'')"
proof -
  define raw where "raw = ''**SUMMARY**'' @ nl @ ''A short talk.'' @ nl @ ''**KEY POINTS**'' @ nl @
             ''- point one'' @ nl @ ''**QUIZ**'' @ nl @ ''Q1...''"
  have h: "first_header ''SUMMARY'' (split raw ''**'') 1"
      "first_header ''KEY POINTS'' (split raw ''**'') 3"
      "first_header ''QUIZ'' (split raw ''**'') 5"
    unfolding raw_def by code_simp+
  have l: "1 + 1 < length (split raw ''**'')" "3 + 1 < length (split raw ''**'')"
      "5 + 1 < length (split raw ''**'')" "length (split raw ''**'') = 7"
    unfolding raw_def by code_simp+
  have v: "strip (split raw ''**'' ! (1 + 1)) = ''A short talk.''"
      "strip (split raw ''**'' ! (3 + 1)) = ''- point one''"
      "strip (split raw ''**'' ! (5 + 1)) = ''Q1...''"
    unfolding raw_def by code_simp+
  obtain sn where n: "extract_sections raw = Inr sn"
    and a: "\<forall>i. first_header ''SUMMARY'' (split raw ''**'') i \<and> i + 1 < length (split raw ''**'') \<longrightarrow>
           summary_text sn = strip (split raw ''**'' ! (i + 1))"
    and b: "\<forall>i. first_header ''KEY POINTS'' (split raw ''**'') i \<and> i + 1 < length (split raw ''**'') \<longrightarrow>
           key_points sn = strip (split raw ''**'' ! (i + 1))"
    and c: "\<forall>i. first_header ''QUIZ'' (split raw ''**'') i \<and> i + 1 < length (split raw ''**'') \<longrightarrow>
           quiz_text sn = strip (split raw ''**'' ! (i + 1))"
    using extract_sections_after_first_header [of raw] by blast
  have "summary_text sn = ''A short talk.''"
    using a h(1) l(1) v(1) by metis
  moreover have "key_points sn = ''- point one''"
    using b h(2) l(2) v(2) by metis
  moreover have "quiz_text sn = ''Q1...''"
    using c h(3) l(3) v(3) by metis
  ultimately have "first_header ''SUMMARY'' (split raw ''**'') 1 \<and>
      first_header ''KEY POINTS'' (split raw ''**'') 3 \<and>
      first_header ''QUIZ'' (split raw ''**'') 5 \<and>
      length (split raw ''**'') = 7 \<and>
      (\<exists>notes. extract_sections raw = Inr notes \<and>
         summary_text notes = ''A short talk.'' \<and> key_points notes = ''- point one'' \<and>
         quiz_text notes = ''Q1...'')"
    using n h l(4) by blast
  then show ?thesis unfolding raw_def .
qed

text \<open>
  C2: a text without the marker \<open>**\<close> gives the three fallbacks, the summary being the
  first 500 characters with \<open>...\<close> added exactly when the text is longer; and for every
  text, a label that no fragment holds, or whose first header is the last fragment, gets
  its fallback. The two placeholders are the caption of the key points and the caption
  of the quiz.
\<close>

theorem extract_sections_fallback:
  "(\<not> contains raw ''**'' \<longrightarrow>
      extract_sections raw =
        Inr \<lparr>summary_text = (if 500 < length raw then take 500 raw @ ''...'' else raw),
             key_points = ''Key points extracted from the lecture content.'',
             quiz_text = ''Quiz questions based on the lecture content.''\<rparr>) \<and>
   (\<exists>notes. extract_sections raw = Inr notes \<and>
      (no_content ''SUMMARY'' (split raw ''**'') \<longrightarrow>
         summary_text notes = (if 500 < length raw then take 500 raw @ ''...'' else raw)) \<and>
      (no_content ''KEY POINTS'' (split raw ''**'') \<longrightarrow>
         key_points notes = ''Key points extracted from the lecture content.'') \<and>
      (no_content ''QUIZ'' (split raw ''**'') \<longrightarrow>
         quiz_text notes = ''Quiz questions based on the lecture content.''))"
proof -
  obtain s k q where
    s: "tab_text ''SUMMARY'' (summary_fallback raw) (split raw ''**'') = Inr s" and
    k: "tab_text ''KEY POINTS'' key_points_fallback (split raw ''**'') = Inr k" and
    q: "tab_text ''QUIZ'' quiz_fallback (split raw ''**'') = Inr q" and
    n: "extract_sections raw = Inr \<lparr>summary_text = s, key_points = k, quiz_text = q\<rparr>"
    using extract_sections_tabs [of raw] by blast
  have s': "s = (if 500 < length raw then take 500 raw @ ''...'' else raw)"
    if "no_content ''SUMMARY'' (split raw ''**'')"
    using tab_text_fallback [OF that, of "summary_fallback raw"] s
    by (simp add: summary_fallback_def)
  have k': "k = ''Key points extracted from the lecture content.''"
    if "no_content ''KEY POINTS'' (split raw ''**'')"
    using tab_text_fallback [OF that, of key_points_fallback] k
    by (simp add: key_points_fallback_def)
  have q': "q = ''Quiz questions based on the lecture content.''"
    if "no_content ''QUIZ'' (split raw ''**'')"
    using tab_text_fallback [OF that, of quiz_fallback] q
    by (simp add: quiz_fallback_def)
  have single: "no_content label (split raw ''**'')" if "\<not> contains raw ''**''" for label
  proof -
    have "split raw ''**'' = [raw]"
      using that by (rule split_single)
    then show ?thesis
      by (simp add: no_content_def first_header_def)
  qed
  have first: "\<not> contains raw ''**'' \<longrightarrow>
      extract_sections raw =
        Inr \<lparr>summary_text = (if 500 < length raw then take 500 raw @ ''...'' else raw),
             key_points = ''Key points extracted from the lecture content.'',
             quiz_text = ''Quiz questions based on the lecture content.''\<rparr>"
    using n s' k' q' single by simp
  have second: "\<exists>notes. extract_sections raw = Inr notes \<and>
      (no_content ''SUMMARY'' (split raw ''**'') \<longrightarrow>
         summary_text notes = (if 500 < length raw then take 500 raw @ ''...'' else raw)) \<and>
      (no_content ''KEY POINTS'' (split raw ''**'') \<longrightarrow>
         key_points notes = ''Key points extracted from the lecture content.'') \<and>
      (no_content ''QUIZ'' (split raw ''**'') \<longrightarrow>
         quiz_text notes = ''Quiz questions based on the lecture content.'')"
    using n s' k' q' by simp
  show ?thesis using first second by (rule conjI)
qed

theorem extract_sections_fallback_witness:
  "\<not> contains ''plain text'' ''**'' \<and>
   extract_sections ''plain text'' =
     Inr \<lparr>summary_text = ''plain text'',
          key_points = ''Key points extracted from the lecture content.'',
          quiz_text = ''Quiz questions based on the lecture content.''\<rparr> \<and>
   \<not> contains (replicate 600 CHR ''x'') ''**'' \<and>
   extract_sections (replicate 600 CHR ''x'') =
     Inr \<lparr>summary_text = replicate 500 CHR ''x'' @ ''...'',
          key_points = ''Key points extracted from the lecture content.'',
          quiz_text = ''Quiz questions based on the lecture content.''\<rparr> \<and>
   no_content ''SUMMARY'' (split ''intro**KEY POINTS**- a**SUMMARY'' ''**'') \<and>
   no_content ''QUIZ'' (split ''intro**KEY POINTS**- a**SUMMARY'' ''**'') \<and>
   (\<exists>notes. extract_sections ''intro**KEY POINTS**- a**SUMMARY'' = Inr notes \<and>
      summary_text notes = ''intro**KEY POINTS**- a**SUMMARY'' \<and>
      quiz_text notes = ''Quiz questions based on the lecture content.'')"
proof -
  have a: "\<not> contains ''plain text'' ''**''"
    by code_simp
  have b: "\<not> contains (replicate 600 CHR ''x'') ''**''"
    by code_simp
  have c: "no_content ''SUMMARY'' (split ''intro**KEY POINTS**- a**SUMMARY'' ''**'')"
      "no_content ''QUIZ'' (split ''intro**KEY POINTS**- a**SUMMARY'' ''**'')"
    by code_simp+
  have "extract_sections ''plain text'' =
     Inr \<lparr>summary_text = ''plain text'',
          key_points = ''Key points extracted from the lecture content.'',
          quiz_text = ''Quiz questions based on the lecture content.''\<rparr>"
    using extract_sections_fallback [of "''plain text''"] a by simp
  moreover have "extract_sections (replicate 600 CHR ''x'') =
     Inr \<lparr>summary_text = replicate 500 CHR ''x'' @ ''...'',
          key_points = ''Key points extracted from the lecture content.'',
          quiz_text = ''Quiz questions based on the lecture content.''\<rparr>"
    using extract_sections_fallback [of "replicate 600 CHR ''x''"] b by simp
  moreover have "\<exists>notes. extract_sections ''intro**KEY POINTS**- a**SUMMARY'' = Inr notes \<and>
      summary_text notes = ''intro**KEY POINTS**- a**SUMMARY'' \<and>
      quiz_text notes = ''Quiz questions based on the lecture content.''"
    using extract_sections_fallback [of "''intro**KEY POINTS**- a**SUMMARY''"] c by auto
  ultimately show ?thesis
    using a b c by blast
qed

text \<open>
  C6: for every text the three tabs are written and nothing is raised; each shows its
  fallback or the stripped text of a fragment of the split.
\<close>

theorem extract_sections_total:
  "\<exists>notes. extract_sections raw = Inr notes \<and>
     (summary_text notes = summary_fallback raw \<or>
      (\<exists>i. i + 1 < length (split raw ''**'') \<and>
           summary_text notes = strip (split raw ''**'' ! (i + 1)))) \<and>
     (key_points notes = key_points_fallback \<or>
      (\<exists>i. i + 1 < length (split raw ''**'') \<and>
           key_points notes = strip (split raw ''**'' ! (i + 1)))) \<and>
     (quiz_text notes = quiz_fallback \<or>
      (\<exists>i. i + 1 < length (split raw ''**'') \<and>
           quiz_text notes = strip (split raw ''**'' ! (i + 1))))"
proof -
  obtain s k q where
    s: "tab_text ''SUMMARY'' (summary_fallback raw) (split raw ''**'') = Inr s" and
    k: "tab_text ''KEY POINTS'' key_points_fallback (split raw ''**'') = Inr k" and
    q: "tab_text ''QUIZ'' quiz_fallback (split raw ''**'') = Inr q" and
    n: "extract_sections raw = Inr \<lparr>summary_text = s, key_points = k, quiz_text = q\<rparr>"
    using extract_sections_tabs [of raw] by blast
  have "s = summary_fallback raw \<or>
      (\<exists>i. i + 1 < length (split raw ''**'') \<and> s = strip (split raw ''**'' ! (i + 1)))"
    using tab_text_cases [of "''SUMMARY''" "summary_fallback raw" "split raw ''**''"] s by auto
  moreover have "k = key_points_fallback \<or>
      (\<exists>i. i + 1 < length (split raw ''**'') \<and> k = strip (split raw ''**'' ! (i + 1)))"
    using tab_text_cases [of "''KEY POINTS''" key_points_fallback "split raw ''**''"] k by auto
  moreover have "q = quiz_fallback \<or>
      (\<exists>i. i + 1 < length (split raw ''**'') \<and> q = strip (split raw ''**'' ! (i + 1)))"
    using tab_text_cases [of "''QUIZ''" quiz_fallback "split raw ''**''"] q by auto
  ultimately show ?thesis
    using n by simp
qed

section \<open>The run: properties\<close>

text \<open>
  Every file name has a MIME type, so the premise \<open>mime_type (name f) = Inr mt\<close> of the
  properties below only names it.
\<close>

lemma mime_type_total: "\<exists>mt. mime_type fname = Inr mt"
  by (simp add: mime_type_def file_extension_def last_item_def split_def split_from_nonempty)

lemma transcribe_raises:
  assumes "mime_type (name f) = Inr mt"
    and "generate_content b (Audio (transcription_prompt include_timestamps) (content f) mt) = Inl e"
  shows "transcribe b f include_timestamps r =
           ([], \<lparr>requests = requests r @
                   [Audio (transcription_prompt include_timestamps) (content f) mt],
                 events = events r @ [st_error (Transcription_error e)]\<rparr>)"
  using assms by (simp add: transcribe_def call_def emit_def)

lemma transcribe_none:
  assumes "mime_type (name f) = Inr mt"
    and "generate_content b (Audio (transcription_prompt include_timestamps) (content f) mt) =
           Inr None"
  shows "transcribe b f include_timestamps r =
           ([], \<lparr>requests = requests r @
                   [Audio (transcription_prompt include_timestamps) (content f) mt],
                 events = events r @ [st_error (Transcription_error AttributeError)]\<rparr>)"
  using assms by (simp add: transcribe_def call_def emit_def)

lemma transcribe_text:
  assumes "mime_type (name f) = Inr mt"
    and "generate_content b (Audio (transcription_prompt include_timestamps) (content f) mt) =
           Inr (Some text)"
  shows "transcribe b f include_timestamps r =
           (strip text,
            \<lparr>requests = requests r @
                [Audio (transcription_prompt include_timestamps) (content f) mt],
              events = events r @
                (if strip text \<noteq> []
                 then [st_text_area tab1 (strip text),
                       st_download_button (strip text) (''transcript_'' @ name f @ ''.txt'')
                         ''text/plain'']
                 else [st_error No_transcript])\<rparr>)"
  using assms by (simp add: transcribe_def call_def emit_def Let_def)

lemma generate_notes_raises:
  assumes "generate_content b (Text (study_prompt transcript num_questions quiz_difficulty)) = Inl e"
  shows "generate_notes b f quiz_difficulty num_questions transcript r =
           \<lparr>requests = requests r @ [Text (study_prompt transcript num_questions quiz_difficulty)],
            events = events r @ [st_error (Generation_error e)]\<rparr>"
  using assms by (simp add: generate_notes_def call_def emit_def)

lemma generate_notes_text:
  assumes "generate_content b (Text (study_prompt transcript num_questions quiz_difficulty)) =
             Inr (Some generated)"
    and "extract_sections generated = Inr sn"
  shows "generate_notes b f quiz_difficulty num_questions transcript r =
           \<lparr>requests = requests r @ [Text (study_prompt transcript num_questions quiz_difficulty)],
            events = events r @
              [st_write tab2 (summary_text sn), st_write tab3 (key_points sn),
               st_write tab4 (quiz_text sn),
               st_download_button (complete_notes generated)
                 (''study_notes_'' @ name f @ ''.txt'') ''text/plain'',
               st_download_button (study_guide (name f) transcript generated)
                 (''complete_study_guide_'' @ name f @ ''.md'') ''text/markdown'']\<rparr>"
proof -
  obtain s k q where
    s: "tab_text ''SUMMARY'' (summary_fallback generated) (split generated ''**'') = Inr s" and
    k: "tab_text ''KEY POINTS'' key_points_fallback (split generated ''**'') = Inr k" and
    q: "tab_text ''QUIZ'' quiz_fallback (split generated ''**'') = Inr q" and
    n: "extract_sections generated = Inr \<lparr>summary_text = s, key_points = k, quiz_text = q\<rparr>"
    using extract_sections_tabs [of generated] by blast
  have "sn = \<lparr>summary_text = s, key_points = k, quiz_text = q\<rparr>"
    using n assms(2) by simp
  then show ?thesis
    using assms(1) s k q by (simp add: generate_notes_def call_def emit_def Let_def)
qed

text \<open>
  C3: when the transcription call raises, or returns no text, or a text that is empty
  once stripped, the run shows the one error of the transcription and the only request
  it has sent is the transcription request: none for the study materials.
\<close>

theorem transcription_failure_stops:
  assumes "gemini_api_key \<noteq> []" and "Client b gemini_api_key = Inr u"
    and "mime_type (name f) = Inr mt"
    and "req = Audio (transcription_prompt include_timestamps) (content f) mt"
  shows "(generate_content b req = Inl e \<longrightarrow>
            app gemini_api_key (Some f) include_timestamps quiz_difficulty num_questions b =
              \<lparr>requests = [req], events = [st_error (Transcription_error e)]\<rparr>) \<and>
         (generate_content b req = Inr None \<longrightarrow>
            app gemini_api_key (Some f) include_timestamps quiz_difficulty num_questions b =
              \<lparr>requests = [req], events = [st_error (Transcription_error AttributeError)]\<rparr>) \<and>
         (generate_content b req = Inr (Some text) \<and> strip text = [] \<longrightarrow>
            app gemini_api_key (Some f) include_timestamps quiz_difficulty num_questions b =
              \<lparr>requests = [req], events = [st_error No_transcript]\<rparr>)"
proof (intro conjI impI)
  assume "generate_content b req = Inl e"
  then show "app gemini_api_key (Some f) include_timestamps quiz_difficulty num_questions b =
      \<lparr>requests = [req], events = [st_error (Transcription_error e)]\<rparr>"
    using assms transcribe_raises [OF assms(3), of b include_timestamps e]
    by (simp add: app_def)
next
  assume "generate_content b req = Inr None"
  then show "app gemini_api_key (Some f) include_timestamps quiz_difficulty num_questions b =
      \<lparr>requests = [req], events = [st_error (Transcription_error AttributeError)]\<rparr>"
    using assms transcribe_none [OF assms(3), of b include_timestamps]
    by (simp add: app_def)
next
  assume "generate_content b req = Inr (Some text) \<and> strip text = []"
  then show "app gemini_api_key (Some f) include_timestamps quiz_difficulty num_questions b =
      \<lparr>requests = [req], events = [st_error No_transcript]\<rparr>"
    using assms transcribe_text [OF assms(3), of b include_timestamps "text"]
    by (simp add: app_def)
qed

theorem transcription_failure_stops_witness:
  "app ''key'' (Some \<lparr>name = ''lecture.wav'', content = ''RIFF''\<rparr>) False ''Medium'' 5
     \<lparr>Client = (\<lambda>k. Inr ()), generate_content = (\<lambda>c. Inl (BackendError ''timeout''))\<rparr> =
     \<lparr>requests = [Audio (transcription_prompt False) ''RIFF'' ''audio/wav''],
      events = [st_error (Transcription_error (BackendError ''timeout''))]\<rparr> \<and>
   strip ''  '' = [] \<and>
   app ''key'' (Some \<lparr>name = ''lecture.wav'', content = ''RIFF''\<rparr>) False ''Medium'' 5
     \<lparr>Client = (\<lambda>k. Inr ()), generate_content = (\<lambda>c. Inr (Some ''  ''))\<rparr> =
     \<lparr>requests = [Audio (transcription_prompt False) ''RIFF'' ''audio/wav''],
      events = [st_error No_transcript]\<rparr>"
proof -
  let ?f = "\<lparr>name = ''lecture.wav'', content = ''RIFF''\<rparr>"
  let ?req = "Audio (transcription_prompt False) ''RIFF'' ''audio/wav''"
  let ?b1 = "\<lparr>Client = (\<lambda>k. Inr ()), generate_content = (\<lambda>c. Inl (BackendError ''timeout''))\<rparr>"
  let ?b2 = "\<lparr>Client = (\<lambda>k. Inr ()), generate_content = (\<lambda>c. Inr (Some ''  ''))\<rparr>"
  have wav: "mime_type ''lecture.wav'' = Inr ''audio/wav''"
    by code_simp
  have blank: "strip ''  '' = []"
    by code_simp
  have key: "''key'' \<noteq> []"
    by simp
  have m: "mime_type (name ?f) = Inr ''audio/wav''"
    using wav by simp
  have r: "?req = Audio (transcription_prompt False) (content ?f) ''audio/wav''"
    by simp
  have c1: "Client ?b1 ''key'' = Inr ()" and c2: "Client ?b2 ''key'' = Inr ()"
    by simp_all
  have "app ''key'' (Some ?f) False ''Medium'' 5 ?b1 =
      \<lparr>requests = [?req], events = [st_error (Transcription_error (BackendError ''timeout''))]\<rparr>"
    using transcription_failure_stops [OF key c1 m r, of "BackendError ''timeout''"] by simp
  moreover have "app ''key'' (Some ?f) False ''Medium'' 5 ?b2 =
      \<lparr>requests = [?req], events = [st_error No_transcript]\<rparr>"
    using transcription_failure_stops [OF key c2 m r, where ?text = "''  ''"] blank by simp
  ultimately show ?thesis
    using blank by simp
qed

text \<open>
  C4: when the transcription gives a text that is not empty once stripped and the call
  for the study materials raises, the run has shown the transcript and its download
  before it shows the error of the generation.
\<close>

theorem generation_failure_keeps_transcript:
  assumes "gemini_api_key \<noteq> []" and "Client b gemini_api_key = Inr u"
    and "mime_type (name f) = Inr mt"
    and "generate_content b (Audio (transcription_prompt include_timestamps) (content f) mt) =
           Inr (Some response_text)"
    and "strip response_text \<noteq> []"
    and "generate_content b
           (Text (study_prompt (strip response_text) num_questions quiz_difficulty)) = Inl e"
  shows "app gemini_api_key (Some f) include_timestamps quiz_difficulty num_questions b =
           \<lparr>requests =
              [Audio (transcription_prompt include_timestamps) (content f) mt,
               Text (study_prompt (strip response_text) num_questions quiz_difficulty)],
            events =
              [st_text_area tab1 (strip response_text),
               st_download_button (strip response_text) (''transcript_'' @ name f @ ''.txt'')
                 ''text/plain'',
               st_error (Generation_error e)]\<rparr>"
  using assms transcribe_text [OF assms(3) assms(4)]
    generate_notes_raises [OF assms(6)]
  by (simp add: app_def)

theorem generation_failure_keeps_transcript_witness:
  "app ''key'' (Some \<lparr>name = ''lecture.wav'', content = ''RIFF''\<rparr>) False ''Medium'' 5
     \<lparr>Client = (\<lambda>k. Inr ()),
      generate_content =
        (\<lambda>c. case c of Audio p a m \<Rightarrow> Inr (Some ''Hello world. '')
              | Text p \<Rightarrow> Inl (BackendError ''quota''))\<rparr> =
     \<lparr>requests =
        [Audio (transcription_prompt False) ''RIFF'' ''audio/wav'',
         Text (study_prompt ''Hello world.'' 5 ''Medium'')],
      events =
        [st_text_area tab1 ''Hello world.'',
         st_download_button ''Hello world.'' ''transcript_lecture.wav.txt'' ''text/plain'',
         st_error (Generation_error (BackendError ''quota''))]\<rparr>"
proof -
  let ?f = "\<lparr>name = ''lecture.wav'', content = ''RIFF''\<rparr>"
  let ?b = "\<lparr>Client = (\<lambda>k. Inr ()),
      generate_content =
        (\<lambda>c. case c of Audio p a m \<Rightarrow> Inr (Some ''Hello world. '')
              | Text p \<Rightarrow> Inl (BackendError ''quota''))\<rparr>"
  have wav: "mime_type ''lecture.wav'' = Inr ''audio/wav''"
    by code_simp
  have st: "strip ''Hello world. '' = ''Hello world.''"
    by code_simp
  have key: "''key'' \<noteq> []"
    by simp
  have c: "Client ?b ''key'' = Inr ()"
    by simp
  have m: "mime_type (name ?f) = Inr ''audio/wav''"
    using wav by simp
  have t: "generate_content ?b (Audio (transcription_prompt False) (content ?f) ''audio/wav'') =
      Inr (Some ''Hello world. '')"
    by simp
  have ne: "strip ''Hello world. '' \<noteq> []"
    using st by simp
  have g: "generate_content ?b (Text (study_prompt (strip ''Hello world. '') 5 ''Medium'')) =
      Inl (BackendError ''quota'')"
    by simp
  show ?thesis
    using generation_failure_keeps_transcript [OF key c m t ne g] st by simp
qed

text \<open>
  C9: in a run that completes, the download of the complete notes is the generated text
  after the banner \<open>LECTURE NOTES\<close> and an empty line, and the download of the study
  guide has the headers \<open># Study Guide\<close>, \<open>## Transcript\<close> and
  \<open>## Generated Study Materials\<close>, with the transcript on the line under the second
  and the generated text on the line under the third.
\<close>

theorem exports_of_complete_run:
  assumes "gemini_api_key \<noteq> []" and "Client b gemini_api_key = Inr u"
    and "mime_type (name f) = Inr mt"
    and "generate_content b (Audio (transcription_prompt include_timestamps) (content f) mt) =
           Inr (Some response_text)"
    and "strip response_text \<noteq> []"
    and "generate_content b
           (Text (study_prompt (strip response_text) num_questions quiz_difficulty)) =
           Inr (Some generated)"
  shows "\<exists>shown.
           events (app gemini_api_key (Some f) include_timestamps quiz_difficulty num_questions b) =
             shown @
             [st_download_button (''LECTURE NOTES'' @ nl @ nl @ generated)
                (''study_notes_'' @ name f @ ''.txt'') ''text/plain'',
              st_download_button
                (nl @ ''# Study Guide: '' @ name f @ nl @ nl @
                 ''## Transcript'' @ nl @ strip response_text @ nl @ nl @
                 ''## Generated Study Materials'' @ nl @ generated @ nl @ nl @
                 ''---'' @ nl @ ''Generated by Lecture Voice-to-Notes Generator'' @ nl)
                (''complete_study_guide_'' @ name f @ ''.md'') ''text/markdown'']"
proof -
  obtain sn where sn: "extract_sections generated = Inr sn"
    using extract_sections_tabs [of generated] by blast
  have "events (app gemini_api_key (Some f) include_timestamps quiz_difficulty num_questions b) =
      [st_text_area tab1 (strip response_text),
       st_download_button (strip response_text) (''transcript_'' @ name f @ ''.txt'')
         ''text/plain'',
       st_write tab2 (summary_text sn), st_write tab3 (key_points sn),
       st_write tab4 (quiz_text sn)] @
      [st_download_button (complete_notes generated)
         (''study_notes_'' @ name f @ ''.txt'') ''text/plain'',
       st_download_button (study_guide (name f) (strip response_text) generated)
         (''complete_study_guide_'' @ name f @ ''.md'') ''text/markdown'']"
    using assms transcribe_text [OF assms(3) assms(4)]
      generate_notes_text [OF assms(6) sn]
    by (simp add: app_def)
  then show ?thesis
    unfolding complete_notes_def study_guide_def by blast
qed

theorem exports_of_complete_run_witness:
  "\<exists>shown.
     events
       (app ''key'' (Some \<lparr>name = ''lecture.wav'', content = ''RIFF''\<rparr>) False ''Medium'' 5
          \<lparr>Client = (\<lambda>k. Inr ()),
           generate_content =
             (\<lambda>c. case c of Audio p a m \<Rightarrow> Inr (Some ''Hello world.'')
                   | Text p \<Rightarrow> Inr (Some (''**SUMMARY**'' @ nl @ ''A short talk.'')))\<rparr>) =
       shown @
       [st_download_button (''LECTURE NOTES'' @ nl @ nl @ ''**SUMMARY**'' @ nl @ ''A short talk.'')
          ''study_notes_lecture.wav.txt'' ''text/plain'',
        st_download_button
          (nl @ ''# Study Guide: lecture.wav'' @ nl @ nl @
           ''## Transcript'' @ nl @ ''Hello world.'' @ nl @ nl @
           ''## Generated Study Materials'' @ nl @ ''**SUMMARY**'' @ nl @ ''A short talk.'' @ nl @ nl @
           ''---'' @ nl @ ''Generated by Lecture Voice-to-Notes Generator'' @ nl)
          ''complete_study_guide_lecture.wav.md'' ''text/markdown'']"
proof -
  let ?f = "\<lparr>name = ''lecture.wav'', content = ''RIFF''\<rparr>"
  let ?g = "''**SUMMARY**'' @ nl @ ''A short talk.''"
  let ?b = "\<lparr>Client = (\<lambda>k. Inr ()),
           generate_content =
             (\<lambda>c. case c of Audio p a m \<Rightarrow> Inr (Some ''Hello world.'')
                   | Text p \<Rightarrow> Inr (Some ?g))\<rparr>"
  have wav: "mime_type ''lecture.wav'' = Inr ''audio/wav''"
    by code_simp
  have st: "strip ''Hello world.'' = ''Hello world.''"
    by code_simp
  have key: "''key'' \<noteq> []"
    by simp
  have c: "Client ?b ''key'' = Inr ()"
    by simp
  have m: "mime_type (name ?f) = Inr ''audio/wav''"
    using wav by simp
  have t: "generate_content ?b (Audio (transcription_prompt False) (content ?f) ''audio/wav'') =
      Inr (Some ''Hello world.'')"
    by simp
  have ne: "strip ''Hello world.'' \<noteq> []"
    using st by simp
  have g: "generate_content ?b (Text (study_prompt (strip ''Hello world.'') 5 ''Medium'')) =
      Inr (Some ?g)"
    by simp
  show ?thesis
    using exports_of_complete_run [OF key c m t ne g] st by simp
qed

section \<open>The prompts: properties\<close>

lemma contains_append_left: "contains a x \<Longrightarrow> contains (a @ b) x"
proof -
  assume "contains a x"
  then obtain ps ss where "a = ps @ x @ ss"
    by (auto simp: contains_def sublist_def)
  then have "a @ b = ps @ x @ (ss @ b)"
    by simp
  then show ?thesis
    unfolding contains_def sublist_def by blast
qed

lemma contains_middle: "s = a @ x @ b \<Longrightarrow> contains s x"
  by (auto simp: contains_def sublist_def)

text \<open>
  C8: the prompt of the transcription holds the clause about timestamps exactly when
  \<open>include_timestamps\<close> is set; the clause comes after the base instruction, which is
  the whole prompt otherwise and asks for accuracy, punctuation, paragraph breaks and the
  speakers.
\<close>

theorem transcription_prompt_timestamps:
  "contains (transcription_prompt include_timestamps) ''Include timestamps where possible'' =
     include_timestamps \<and>
   transcription_prompt True =
     transcription_prompt False @ '' Include timestamps where possible.'' \<and>
   contains (transcription_prompt False) ''transcribe this audio file accurately'' \<and>
   contains (transcription_prompt False) ''proper punctuation'' \<and>
   contains (transcription_prompt False) ''paragraph breaks'' \<and>
   contains (transcription_prompt False) ''speaker identification''"
proof -
  have yes: "contains (transcription_prompt True) ''Include timestamps where possible''"
    by code_simp
  have no: "\<not> contains (transcription_prompt False) ''Include timestamps where possible''"
    by code_simp
  have iff: "contains (transcription_prompt include_timestamps)
      ''Include timestamps where possible'' = include_timestamps"
    using yes no by (cases include_timestamps) simp_all
  have app: "transcription_prompt True =
      transcription_prompt False @ '' Include timestamps where possible.''"
    by (simp add: transcription_prompt_def)
  have base: "contains (transcription_prompt False) ''transcribe this audio file accurately''"
      "contains (transcription_prompt False) ''proper punctuation''"
      "contains (transcription_prompt False) ''paragraph breaks''"
      "contains (transcription_prompt False) ''speaker identification''"
    by code_simp+
  show ?thesis
    using iff app base by blast
qed

text \<open>
  C7: for every transcript, question count and difficulty, the prompt of the study
  materials holds the transcript, the count in decimal and the lower-cased difficulty,
  these two in the instruction of the quiz, and the three headers between double
  asterisks.
\<close>

theorem study_prompt_embeds:
  "contains (study_prompt transcript_text num_questions quiz_difficulty) transcript_text \<and>
   contains (study_prompt transcript_text num_questions quiz_difficulty) (str num_questions) \<and>
   contains (study_prompt transcript_text num_questions quiz_difficulty) (lower quiz_difficulty) \<and>
   contains (study_prompt transcript_text num_questions quiz_difficulty)
     (''Create '' @ str num_questions @ '' '' @ lower quiz_difficulty @
      ''-level multiple-choice questions'') \<and>
   contains (study_prompt transcript_text num_questions quiz_difficulty) ''**SUMMARY**'' \<and>
   contains (study_prompt transcript_text num_questions quiz_difficulty) ''**KEY POINTS**'' \<and>
   contains (study_prompt transcript_text num_questions quiz_difficulty) ''**QUIZ**'' \<and>
   contains (study_prompt transcript_text 5 ''Medium'')
     ''Create 5 medium-level multiple-choice questions''"
proof -
  let ?p = "study_prompt transcript_text num_questions quiz_difficulty"
  have t: "contains ?p transcript_text"
    by (rule contains_middle
        [of _ "study_prompt_head @ str num_questions @ '' '' @ lower quiz_difficulty @
               study_prompt_quiz" _ study_prompt_tail])
      (simp add: study_prompt_def)
  have n: "contains ?p (str num_questions)"
    by (rule contains_middle
        [of _ study_prompt_head _ "'' '' @ lower quiz_difficulty @ study_prompt_quiz @
               transcript_text @ study_prompt_tail"])
      (simp add: study_prompt_def)
  have d: "contains ?p (lower quiz_difficulty)"
    by (rule contains_middle
        [of _ "study_prompt_head @ str num_questions @ '' ''" _
              "study_prompt_quiz @ transcript_text @ study_prompt_tail"])
      (simp add: study_prompt_def)
  have "suffix ''Create '' study_prompt_head"
    by code_simp
  then obtain h where h: "study_prompt_head = h @ ''Create ''"
    by (auto simp: suffix_def)
  have "prefix ''-level multiple-choice questions'' study_prompt_quiz"
    by code_simp
  then obtain q where q: "study_prompt_quiz = ''-level multiple-choice questions'' @ q"
    by (auto simp: prefix_def)
  have create: "contains (study_prompt transcript_text k l)
      (''Create '' @ str k @ '' '' @ lower l @ ''-level multiple-choice questions'')" for k l
    by (rule contains_middle [of _ h _ "q @ transcript_text @ study_prompt_tail"])
      (simp add: study_prompt_def h q)
  have heads: "contains study_prompt_head ''**SUMMARY**''"
      "contains study_prompt_head ''**KEY POINTS**''"
      "contains study_prompt_head ''**QUIZ**''"
    by code_simp+
  have headers: "contains ?p ''**SUMMARY**''" "contains ?p ''**KEY POINTS**''"
      "contains ?p ''**QUIZ**''"
    unfolding study_prompt_def using heads by (auto intro: contains_append_left)
  have five: "str 5 = ''5''" and medium: "lower ''Medium'' = ''medium''"
    by code_simp+
  have example: "contains (study_prompt transcript_text 5 ''Medium'')
      ''Create 5 medium-level multiple-choice questions''"
    using create [of 5 "''Medium''"] by (simp add: five medium)
  show ?thesis
    using t n d create headers example by blast
qed

end
